theory Spec2Isabelle
  imports Main "HOL-Library.Sublist" "HOL-Library.Log_Nat"
begin

section \<open>Route constraint encoding (c3nav/site/views.py)\<close>

text \<open>
  \<^verbatim>\<open>ctype_mapping\<close> is a dict from the setting to the directions it allows; an
  association list read with \<open>map_of\<close> keeps the source's table.
\<close>

definition ctype_mapping :: "(string \<times> string list) list" where
  "ctype_mapping =
     [(''yes'', [''up'', ''down'']),
      (''up'', [''up'']),
      (''down'', [''down'']),
      (''no'', [])]"

text \<open>
  \<^verbatim>\<open>ctype_mapping.get(value, ('up', 'down'))\<close>: a setting that is not a key of the
  table allows both directions.
\<close>

definition get_ctypes :: "string \<Rightarrow> string \<Rightarrow> string list" where
  "get_ctypes pfx v =
     map (\<lambda>direction. pfx @ ''_'' @ direction)
       (case map_of ctype_mapping v of
          None \<Rightarrow> [''up'', ''down'']
        | Some directions \<Rightarrow> directions)"

definition reverse_ctypes :: "string list \<Rightarrow> string \<Rightarrow> string" where
  "reverse_ctypes ctypes feature =
     (if feature @ ''_up'' \<in> set ctypes
      then (if feature @ ''_down'' \<in> set ctypes then ''yes'' else ''up'')
      else (if feature @ ''_down'' \<in> set ctypes then ''down'' else ''no''))"

text \<open>
  The tuple \<^verbatim>\<open>allowed_ctypes\<close> that \<^verbatim>\<open>main\<close> builds from the three settings
  (lines 152 to 155): the empty tag first, then the tags of each feature.
\<close>

definition allowed_ctypes :: "string \<Rightarrow> string \<Rightarrow> string \<Rightarrow> string list" where
  "allowed_ctypes stairs escalators elevators =
     [''''] @ get_ctypes ''stairs'' stairs
            @ get_ctypes ''escalator'' escalators
            @ get_ctypes ''elevator'' elevators"

section \<open>Python numbers used by the location code\<close>

text \<open>
  The exceptions that the modelled expressions can raise.
\<close>

datatype error = ZeroDivisionError | OverflowError | ValueError

text \<open>
  A Python \<^verbatim>\<open>float\<close> is an IEEE 754 binary64 value. A finite value is represented by
  the rational number it denotes (the sign of zero is not kept: no operation below
  tells \<^verbatim>\<open>-0.0\<close> from \<^verbatim>\<open>0.0\<close>).
\<close>

datatype pyfloat = Fin rat | PInf | NInf | NaN

text \<open>
  Rounding of the exact quotient \<open>n / d\<close> (\<open>0 \<le> n\<close>, \<open>0 < d\<close>) to the nearest integer,
  ties to the even one.
\<close>

definition round_half_even :: "int \<Rightarrow> int \<Rightarrow> int" where
  "round_half_even n d =
     (let q = n div d; r = n mod d
      in if 2 * r < d then q
         else if d < 2 * r then q + 1
         else if even q then q else q + 1)"

text \<open>
  The binary exponent of \<open>n / d\<close> for \<open>0 < n\<close>, \<open>0 < d\<close>: the integer \<open>e\<close> with
  \<open>2\<^sup>e \<le> n / d < 2\<^sup>e\<^sup>+\<^sup>1\<close>. The difference of the bit lengths is \<open>e\<close> or \<open>e + 1\<close>.
\<close>

definition floor_log2 :: "int \<Rightarrow> int \<Rightarrow> int" where
  "floor_log2 n d =
     (let k = bitlen n - bitlen d
      in if (if 0 \<le> k then d * 2 ^ nat k \<le> n else d \<le> n * 2 ^ nat (- k))
         then k else k - 1)"

text \<open>
  Round to nearest, ties to even, of a positive \<open>n / d\<close> to binary64: 53 significant
  bits, exponents from \<open>-1022\<close> (below it the spacing stays \<open>2\<^sup>-\<^sup>1\<^sup>0\<^sup>7\<^sup>4\<close>, the subnormal
  range) to \<open>1023\<close>; a result of \<open>2\<^sup>1\<^sup>0\<^sup>2\<^sup>4\<close> or more is infinite.
\<close>

definition round_pos :: "int \<Rightarrow> int \<Rightarrow> pyfloat" where
  "round_pos n d =
     (let e = max (floor_log2 n d) (- 1022);
          s = e - 52;
          m = (if 0 \<le> s then round_half_even n (d * 2 ^ nat s)
               else round_half_even (n * 2 ^ nat (- s)) d)
      in if 1024 \<le> e \<or> (e = 1023 \<and> m = 2 ^ 53) then PInf
         else if 0 \<le> s then Fin (of_int (m * 2 ^ nat s))
         else Fin (of_int m / of_int (2 ^ nat (- s))))"

definition float_neg :: "pyfloat \<Rightarrow> pyfloat" where
  "float_neg a =
     (case a of Fin r \<Rightarrow> Fin (- r) | PInf \<Rightarrow> NInf | NInf \<Rightarrow> PInf | NaN \<Rightarrow> NaN)"

definition round_ratio :: "int \<Rightarrow> int \<Rightarrow> pyfloat" where
  "round_ratio n d =
     (if n = 0 then Fin 0
      else if 0 < n then round_pos n d
      else float_neg (round_pos (- n) d))"

definition round_double :: "rat \<Rightarrow> pyfloat" where
  "round_double q = (case quotient_of q of (n, d) \<Rightarrow> round_ratio n d)"

text \<open>
  \<^verbatim>\<open>a / b\<close> on two Python \<^verbatim>\<open>int\<close>s: the correctly rounded quotient, ZeroDivisionError
  for a zero divisor, and OverflowError (``integer division result too large for a
  float'') when the quotient is beyond the finite range.
\<close>

definition int_truediv :: "int \<Rightarrow> int \<Rightarrow> error + pyfloat" where
  "int_truediv a b =
     (if b = 0 then Inl ZeroDivisionError
      else (case (if 0 < b then round_ratio a b else round_ratio (- a) (- b)) of
              Fin r \<Rightarrow> Inr (Fin r)
            | _ \<Rightarrow> Inl OverflowError))"

definition float_sign :: "pyfloat \<Rightarrow> int" where
  "float_sign a =
     (case a of
        Fin r \<Rightarrow> (if r = 0 then 0 else if 0 < r then 1 else - 1)
      | PInf \<Rightarrow> 1
      | NInf \<Rightarrow> - 1
      | NaN \<Rightarrow> 0)"

text \<open>
  \<^verbatim>\<open>a * b\<close> on floats never raises: the product is rounded, an overflow is infinite,
  and \<open>0 * \<infinity>\<close> is not a number.
\<close>

definition float_mul :: "pyfloat \<Rightarrow> pyfloat \<Rightarrow> pyfloat" where
  "float_mul a b =
     (case (a, b) of
        (Fin r, Fin s) \<Rightarrow> round_double (r * s)
      | (NaN, _) \<Rightarrow> NaN
      | (_, NaN) \<Rightarrow> NaN
      | _ \<Rightarrow> (if float_sign a * float_sign b = 0 then NaN
               else if 0 < float_sign a * float_sign b then PInf else NInf))"

text \<open>
  The IEEE quotient for a divisor that is not zero, and \<^verbatim>\<open>a / b\<close> on floats, which
  raises ZeroDivisionError for a zero divisor before anything else.
\<close>

definition ieee_div :: "pyfloat \<Rightarrow> pyfloat \<Rightarrow> pyfloat" where
  "ieee_div a b =
     (case (a, b) of
        (Fin r, Fin s) \<Rightarrow> round_double (r / s)
      | (NaN, _) \<Rightarrow> NaN
      | (_, NaN) \<Rightarrow> NaN
      | (Fin r, _) \<Rightarrow> Fin 0
      | (_, Fin s) \<Rightarrow> (if 0 < float_sign a * float_sign b then PInf else NInf)
      | _ \<Rightarrow> NaN)"

definition float_div :: "pyfloat \<Rightarrow> pyfloat \<Rightarrow> error + pyfloat" where
  "float_div a b = (if b = Fin 0 then Inl ZeroDivisionError else Inr (ieee_div a b))"

text \<open>\<^verbatim>\<open>a > b\<close> on floats; every comparison with a NaN is false.\<close>

definition float_gt :: "pyfloat \<Rightarrow> pyfloat \<Rightarrow> bool" where
  "float_gt a b =
     (case (a, b) of
        (NaN, _) \<Rightarrow> False
      | (_, NaN) \<Rightarrow> False
      | (Fin r, Fin s) \<Rightarrow> s < r
      | (PInf, PInf) \<Rightarrow> False
      | (PInf, _) \<Rightarrow> True
      | (NInf, _) \<Rightarrow> False
      | (Fin r, NInf) \<Rightarrow> True
      | (Fin r, PInf) \<Rightarrow> False)"

definition float_le :: "pyfloat \<Rightarrow> pyfloat \<Rightarrow> bool" where
  "float_le a b = (a \<noteq> NaN \<and> b \<noteq> NaN \<and> \<not> float_gt a b)"

text \<open>The truth value of a float: false for zero only.\<close>

definition float_bool :: "pyfloat \<Rightarrow> bool" where
  "float_bool a = (a \<noteq> Fin 0)"

text \<open>
  \<^verbatim>\<open>int(a)\<close> for a float truncates towards zero and raises for an infinity or a NaN.
\<close>

definition float_to_int :: "pyfloat \<Rightarrow> error + int" where
  "float_to_int a =
     (case a of
        Fin r \<Rightarrow> Inr (if 0 \<le> r then \<lfloor>r\<rfloor> else \<lceil>r\<rceil>)
      | NaN \<Rightarrow> Inl ValueError
      | _ \<Rightarrow> Inl OverflowError)"

text \<open>The float literal \<^verbatim>\<open>0.99\<close>: the double nearest to \<open>99 / 100\<close>.\<close>

definition literal_0_99 :: pyfloat where
  "literal_0_99 = round_ratio 99 100"

section \<open>Strings\<close>

definition digit_chars :: string where
  "digit_chars = ''0123456789''"

text \<open>Decimal digits of a natural number, as \<^verbatim>\<open>%d\<close> and \<^verbatim>\<open>str\<close> print them.\<close>

fun str_of_nat :: "nat \<Rightarrow> string" where
  "str_of_nat n =
     (if n < 10 then [digit_chars ! n]
      else str_of_nat (n div 10) @ [digit_chars ! (n mod 10)])"

declare str_of_nat.simps [simp del]

definition str_of_int :: "int \<Rightarrow> string" where
  "str_of_int i = (if i < 0 then CHR ''-'' # str_of_nat (nat (- i)) else str_of_nat (nat i))"

text \<open>\<^verbatim>\<open>'%d' % a\<close> for a float \<open>a\<close>: the float is converted with \<^verbatim>\<open>int\<close> first.\<close>

definition format_d :: "pyfloat \<Rightarrow> error + string" where
  "format_d a = (case float_to_int a of Inl e \<Rightarrow> Inl e | Inr i \<Rightarrow> Inr (str_of_int i))"

definition digit_value :: "char \<Rightarrow> int" where
  "digit_value c = int (length (takeWhile (\<lambda>d. d \<noteq> c) digit_chars))"

text \<open>
  \<^verbatim>\<open>int(s)\<close> on a nonempty string of the digits \<^verbatim>\<open>0\<close> to \<^verbatim>\<open>9\<close>, the only strings the
  coordinate pattern passes to it.
\<close>

definition int_of_digits :: "string \<Rightarrow> int" where
  "int_of_digits s = foldl (\<lambda>acc c. 10 * acc + digit_value c) 0 s"

text \<open>\<^verbatim>\<open>s.split(' ')\<close>: split at every single space; empty pieces are kept.\<close>

fun split_space :: "string \<Rightarrow> string list" where
  "split_space [] = [[]]"
| "split_space (c # s) =
     (if c = CHR '' '' then [] # split_space s
      else (case split_space s of w # ws \<Rightarrow> (c # w) # ws | [] \<Rightarrow> [[c]]))"

definition lower_char :: "char \<Rightarrow> char" where
  "lower_char c =
     (case map_of (zip ''ABCDEFGHIJKLMNOPQRSTUVWXYZ'' ''abcdefghijklmnopqrstuvwxyz'') c of
        Some l \<Rightarrow> l
      | None \<Rightarrow> c)"

text \<open>\<open>w\<close> occurs in \<open>s\<close> as a contiguous substring.\<close>

fun contains :: "string \<Rightarrow> string \<Rightarrow> bool" where
  "contains [] w = (w = [])"
| "contains (c # s) w = (prefix w (c # s) \<or> contains s w)"

text \<open>
  The lookup \<^verbatim>\<open>field__icontains=word\<close> on a text column: a substring test that
  ignores the case of the letters A to Z.
\<close>

definition icontains :: "string \<Rightarrow> string \<Rightarrow> bool" where
  "icontains s w = contains (map lower_char s) (map lower_char w)"

subsection \<open>The coordinate pattern\<close>

definition level_char :: "char \<Rightarrow> bool" where
  "level_char c = (c \<in> set ''abcdefghijklmnopqrstuvwxyz0123456789-_'')"

definition digit_char :: "char \<Rightarrow> bool" where
  "digit_char c = (c \<in> set digit_chars)"

text \<open>
  \<^verbatim>\<open>re.match('^c:(?P<level>[a-z0-9-_]+):(?P<x>[0-9]+):(?P<y>[0-9]+)$', name)\<close>,
  returning the three groups. The character after each group is a colon, which is in
  neither character class, so each group is the longest run of its class and no
  backtracking changes the outcome. Python's \<^verbatim>\<open>$\<close> matches at the end of the string
  and also just before a newline that ends the string.
\<close>

definition match_coord :: "string \<Rightarrow> (string \<times> string \<times> string) option" where
  "match_coord ident =
     (if take 2 ident \<noteq> ''c:'' then None
      else let r0 = drop 2 ident;
               lvl = takeWhile level_char r0; r1 = dropWhile level_char r0
           in if lvl = [] \<or> take 1 r1 \<noteq> '':'' then None
              else let r2 = drop 1 r1;
                       xs = takeWhile digit_char r2; r3 = dropWhile digit_char r2
                   in if xs = [] \<or> take 1 r3 \<noteq> '':'' then None
                      else let r4 = drop 1 r3;
                               ys = takeWhile digit_char r4; r5 = dropWhile digit_char r4
                           in if ys = [] then None
                              else if r5 = [] \<or> r5 = [CHR 0x0A] then Some (lvl, xs, ys)
                              else None)"

section \<open>Data model (c3nav/mapdata/models/locations.py)\<close>

text \<open>
  \<^verbatim>\<open>Level\<close> is declared in another module (c3nav.mapdata.models); the location code
  reads its \<^verbatim>\<open>name\<close> and the views its \<^verbatim>\<open>intermediate\<close> flag.
\<close>

record level =
  level_name :: string
  intermediate :: bool

text \<open>
  The fields that \<^verbatim>\<open>LocationModelMixin\<close> and \<^verbatim>\<open>MapItem\<close> give to both persisted
  kinds of location. \<^verbatim>\<open>titles\<close> maps a language code to a title.
\<close>

record locationmodel =
  name :: string
  titles :: "(string \<times> string) list"
  can_search :: bool
  routing_inclusion :: string

type_synonym locationgroup = locationmodel

text \<open>\<^verbatim>\<open>AreaLocation.LOCATION_TYPES\<close>: the five choices of \<^verbatim>\<open>location_type\<close>.\<close>

datatype location_type = Level | Area | Room | Roomsegment | Poi

definition LOCATION_TYPES_ORDER :: "location_type list" where
  "LOCATION_TYPES_ORDER = [Level, Area, Room, Roomsegment, Poi]"

text \<open>
  An \<^verbatim>\<open>AreaLocation\<close>; \<open>'g\<close> is the type of polygon geometries, which the geometry
  library provides.
\<close>

record 'g arealocation = locationmodel +
  location_type :: location_type
  level :: level
  geometry :: 'g
  can_describe :: bool

record pointlocation =
  p_level :: level
  p_x :: pyfloat
  p_y :: pyfloat

text \<open>The three kinds of \<^verbatim>\<open>Location\<close>.\<close>

datatype 'g location =
    PointLoc pointlocation
  | AreaLoc "'g arealocation"
  | GroupLoc locationgroup

text \<open>
  What the functions read from their environment: the table of
  \<^verbatim>\<open>get_levels_cached()\<close> and the rows of the two models, in the order in which an
  unordered queryset yields them.
\<close>

record 'g mapdata =
  levels_cached :: "string \<rightharpoonup> level"
  arealocations :: "'g arealocation list"
  locationgroups :: "locationgroup list"

text \<open>
  The access context of a request: which rows of the two models it may see.
\<close>

record 'g request =
  may_see_area :: "'g arealocation \<Rightarrow> bool"
  may_see_group :: "locationgroup \<Rightarrow> bool"

text \<open>
  Modelled from the spec: \<^verbatim>\<open>filter_queryset_by_package_access\<close> is defined in
  another module (c3nav.mapdata.permissions). It ``enforces which map packages/areas
  the requester may see'' and returns the filtered candidates: the rows of the
  queryset that the request may see, in their order.
\<close>

definition filter_queryset_by_package_access ::
  "('a \<Rightarrow> bool) \<Rightarrow> 'a list \<Rightarrow> 'a list" where
  "filter_queryset_by_package_access may_see queryset = filter may_see queryset"

text \<open>\<^verbatim>\<open>queryset.first()\<close>: the first row, or \<^verbatim>\<open>None\<close>.\<close>

definition first :: "'a list \<Rightarrow> 'a option" where
  "first queryset = (case queryset of [] \<Rightarrow> None | a # _ \<Rightarrow> Some a)"

text \<open>
  Modelled from the spec: the lookup \<^verbatim>\<open>titles__icontains\<close> depends on the field class
  of \<^verbatim>\<open>titles\<close>, which is defined in another module (c3nav.mapdata.fields). The spec
  says that a token matches when it occurs, case-insensitively, in ``any title
  string''.
\<close>

definition titles_icontains :: "(string \<times> string) list \<Rightarrow> string \<Rightarrow> bool" where
  "titles_icontains ts w = list_ex (\<lambda>t. icontains t w) (map snd ts)"

section \<open>Location identifiers and resolution\<close>

text \<open>
  \<^verbatim>\<open>PointLocation.location_id\<close>:
  \<^verbatim>\<open>'c:%s:%d:%d' % (self.level.name, self.x*100, self.y*100)\<close>. The int \<open>100\<close> is
  converted to the float \<open>100.0\<close> exactly.
\<close>

definition point_location_id :: "pointlocation \<Rightarrow> error + string" where
  "point_location_id p =
     (case format_d (float_mul (p_x p) (Fin 100)) of
        Inl e \<Rightarrow> Inl e
      | Inr sx \<Rightarrow>
          (case format_d (float_mul (p_y p) (Fin 100)) of
             Inl e \<Rightarrow> Inl e
           | Inr sy \<Rightarrow> Inr (''c:'' @ level_name (p_level p) @ '':'' @ sx @ '':'' @ sy)))"

definition group_location_id :: "locationgroup \<Rightarrow> string" where
  "group_location_id g = ''g:'' @ name g"

definition area_location_id :: "'g arealocation \<Rightarrow> string" where
  "area_location_id a = name a"

definition get_location ::
  "'g mapdata \<Rightarrow> 'g request \<Rightarrow> string \<Rightarrow> error + 'g location option" where
  "get_location db request ident =
     (case match_coord ident of
        Some (lvl, xs, ys) \<Rightarrow>
          (case levels_cached db lvl of
             None \<Rightarrow> Inr None
           | Some l \<Rightarrow>
               (case int_truediv (int_of_digits xs) 100 of
                  Inl e \<Rightarrow> Inl e
                | Inr fx \<Rightarrow>
                    (case int_truediv (int_of_digits ys) 100 of
                       Inl e \<Rightarrow> Inl e
                     | Inr fy \<Rightarrow>
                         Inr (Some (PointLoc \<lparr>p_level = l, p_x = fx, p_y = fy\<rparr>)))))
      | None \<Rightarrow>
          if take 2 ident = ''g:''
          then Inr (map_option GroupLoc
                 (first (filter_queryset_by_package_access (may_see_group request)
                    (filter (\<lambda>g. name g = drop 2 ident) (locationgroups db)))))
          else Inr (map_option AreaLoc
                 (first (filter_queryset_by_package_access (may_see_area request)
                    (filter (\<lambda>a. name a = ident) (arealocations db))))))"

section \<open>Search\<close>

text \<open>
  \<^verbatim>\<open>filter_words\<close>: one \<^verbatim>\<open>filter\<close> call per word, each keeping the rows whose name or
  titles contain the word.
\<close>

fun filter_words :: "('a locationmodel_scheme) list \<Rightarrow> string list \<Rightarrow> ('a locationmodel_scheme) list" where
  "filter_words queryset [] = queryset"
| "filter_words queryset (word # ws) =
     filter_words
       (filter (\<lambda>row. icontains (name row) word \<or> titles_icontains (titles row) word) queryset)
       ws"

text \<open>
  \<^verbatim>\<open>LOCATION_TYPES_ORDER.index(arealocation.location_type)\<close>. All five values of
  the type are in the tuple, so \<^verbatim>\<open>index\<close> finds each of them.
\<close>

definition get_sort_key :: "'g arealocation \<Rightarrow> nat" where
  "get_sort_key a = length (takeWhile (\<lambda>t. t \<noteq> location_type a) LOCATION_TYPES_ORDER)"

text \<open>
  \<^verbatim>\<open>sorted(rows, key=get_sort_key, reverse=True)\<close>: descending by key, and rows of equal
  key keep their order.
\<close>

definition sorted_reverse :: "('a \<Rightarrow> nat) \<Rightarrow> 'a list \<Rightarrow> 'a list" where
  "sorted_reverse key rows = rev (sort_key key (rev rows))"

text \<open>
  \<^verbatim>\<open>queryset.exclude(name=...)\<close> returns a new queryset and leaves the one it is called
  on as it was.
\<close>

definition exclude_name :: "string \<Rightarrow> ('a locationmodel_scheme) list \<Rightarrow> ('a locationmodel_scheme) list" where
  "exclude_name n queryset = filter (\<lambda>row. name row \<noteq> n) queryset"

text \<open>
  The two fuzzy parts of the result of \<^verbatim>\<open>search_location\<close>. In both, the source calls
  \<^verbatim>\<open>queryset.exclude(name=location.name)\<close> as a statement and goes on with
  \<^verbatim>\<open>queryset\<close>: the value of the call is not used.
\<close>

definition area_matches ::
  "'g mapdata \<Rightarrow> 'g request \<Rightarrow> 'g location option \<Rightarrow> string list \<Rightarrow> 'g arealocation list" where
  "area_matches db request location words =
     (let queryset = arealocations db;
          unused = (case location of
                      Some (AreaLoc a) \<Rightarrow> exclude_name (name a) queryset
                    | _ \<Rightarrow> queryset)
      in sorted_reverse get_sort_key
           (filter_words
              (filter_queryset_by_package_access (may_see_area request) queryset) words))"

definition group_matches ::
  "'g mapdata \<Rightarrow> 'g request \<Rightarrow> 'g location option \<Rightarrow> string list \<Rightarrow> locationgroup list" where
  "group_matches db request location words =
     (let queryset = locationgroups db;
          unused = (case location of
                      Some (GroupLoc g) \<Rightarrow> exclude_name (name g) queryset
                    | _ \<Rightarrow> queryset)
      in take 10
           (filter_words
              (filter_queryset_by_package_access (may_see_group request) queryset) words))"

definition search_location ::
  "'g mapdata \<Rightarrow> 'g request \<Rightarrow> string \<Rightarrow> error + 'g location list" where
  "search_location db request search =
     (case get_location db request search of
        Inl e \<Rightarrow> Inl e
      | Inr location \<Rightarrow>
          (let results = (case location of Some l \<Rightarrow> [l] | None \<Rightarrow> []);
               words = take 10 (split_space search)
           in Inr (results
                   @ map AreaLoc (area_matches db request location words)
                   @ map GroupLoc (group_matches db request location words))))"

section \<open>Enclosing areas\<close>

text \<open>
  The inner loop of \<^verbatim>\<open>_get_in_areas\<close> over the rows of one location type:
  \<^verbatim>\<open>intersection_area and intersection_area / my_area > 0.99\<close> divides only when the
  intersection area is true, that is not zero.
\<close>

fun scan_arealocations ::
  "('g \<Rightarrow> pyfloat) \<Rightarrow> ('g \<Rightarrow> 'g \<Rightarrow> 'g) \<Rightarrow> 'g \<Rightarrow> pyfloat \<Rightarrow> 'g arealocation list
     \<Rightarrow> 'g arealocation list \<Rightarrow> error + 'g arealocation list" where
  "scan_arealocations area intersection self_geometry my_area [] in_areas = Inr in_areas"
| "scan_arealocations area intersection self_geometry my_area (arealocation # rest) in_areas =
     (let intersection_area = area (intersection (geometry arealocation) self_geometry)
      in if float_bool intersection_area
         then (case float_div intersection_area my_area of
                 Inl e \<Rightarrow> Inl e
               | Inr ratio \<Rightarrow>
                   scan_arealocations area intersection self_geometry my_area rest
                     (if float_gt ratio literal_0_99 then in_areas @ [arealocation]
                      else in_areas))
         else scan_arealocations area intersection self_geometry my_area rest in_areas)"

text \<open>
  The outer loop over the location types
  \<^verbatim>\<open>reversed(self.LOCATION_TYPES_ORDER[:area_location_i])\<close>, with the queryset
  \<^verbatim>\<open>AreaLocation.objects.filter(location_type=location_type, level=self.level)\<close>.
\<close>

fun scan_location_types ::
  "('g \<Rightarrow> pyfloat) \<Rightarrow> ('g \<Rightarrow> 'g \<Rightarrow> 'g) \<Rightarrow> 'g arealocation list \<Rightarrow> 'g arealocation \<Rightarrow> pyfloat
     \<Rightarrow> location_type list \<Rightarrow> 'g arealocation list \<Rightarrow> error + 'g arealocation list" where
  "scan_location_types area intersection rows self my_area [] in_areas = Inr in_areas"
| "scan_location_types area intersection rows self my_area (t # ts) in_areas =
     (case scan_arealocations area intersection (geometry self) my_area
             (filter (\<lambda>a. location_type a = t \<and> level a = level self) rows) in_areas of
        Inl e \<Rightarrow> Inl e
      | Inr in_areas' \<Rightarrow> scan_location_types area intersection rows self my_area ts in_areas')"

text \<open>
  \<^verbatim>\<open>AreaLocation._get_in_areas\<close>. The geometry library is a parameter: \<open>area\<close> gives
  the area of a geometry as a float and \<open>intersection\<close> the common part of two.
\<close>

definition AreaLocation_get_in_areas ::
  "('g \<Rightarrow> pyfloat) \<Rightarrow> ('g \<Rightarrow> 'g \<Rightarrow> 'g) \<Rightarrow> 'g arealocation list \<Rightarrow> 'g arealocation
     \<Rightarrow> error + 'g arealocation list" where
  "AreaLocation_get_in_areas area intersection rows self =
     (let my_area = area (geometry self);
          area_location_i = get_sort_key self
      in scan_location_types area intersection rows self my_area
           (rev (take area_location_i LOCATION_TYPES_ORDER)) [])"

text \<open>
  The condition under which the loop body appends a row, for a division that did not
  raise: the area of the intersection is not zero and its quotient by \<open>my_area\<close> is
  greater than \<^verbatim>\<open>0.99\<close>.
\<close>

definition overlap_passes ::
  "('g \<Rightarrow> pyfloat) \<Rightarrow> ('g \<Rightarrow> 'g \<Rightarrow> 'g) \<Rightarrow> 'g \<Rightarrow> pyfloat \<Rightarrow> 'g arealocation \<Rightarrow> bool" where
  "overlap_passes area intersection self_geometry my_area a =
     (float_bool (area (intersection (geometry a) self_geometry))
      \<and> float_gt (ieee_div (area (intersection (geometry a) self_geometry)) my_area)
            literal_0_99)"

text \<open>
  The rows of one location type on the level of \<open>self\<close> that pass the overlap test.
\<close>

definition passing_rows ::
  "('g \<Rightarrow> pyfloat) \<Rightarrow> ('g \<Rightarrow> 'g \<Rightarrow> 'g) \<Rightarrow> 'g arealocation list \<Rightarrow> 'g arealocation \<Rightarrow> pyfloat
     \<Rightarrow> location_type \<Rightarrow> 'g arealocation list" where
  "passing_rows area intersection rows self ma t =
     filter (overlap_passes area intersection (geometry self) ma)
       (filter (\<lambda>a. location_type a = t \<and> level a = level self) rows)"

text \<open>The granularity ordinal of a location type: its position in the tuple.\<close>

definition type_key :: "location_type \<Rightarrow> nat" where
  "type_key t = length (takeWhile (\<lambda>u. u \<noteq> t) LOCATION_TYPES_ORDER)"

section \<open>A small map for concrete evaluations\<close>

text \<open>
  A one-dimensional stand-in for the geometry library: a geometry is an interval
  \<open>[lo, hi)\<close> of integers, its area is its length and the intersection of two
  intervals is an interval.
\<close>

definition interval_area :: "int \<times> int \<Rightarrow> pyfloat" where
  "interval_area g = Fin (of_int (max 0 (snd g - fst g)))"

definition interval_intersection :: "int \<times> int \<Rightarrow> int \<times> int \<Rightarrow> int \<times> int" where
  "interval_intersection g h = (max (fst g) (fst h), min (snd g) (snd h))"

definition ground :: level where
  "ground = \<lparr>level_name = ''ground'', intermediate = False\<rparr>"

definition mk_area ::
  "string \<Rightarrow> string \<Rightarrow> location_type \<Rightarrow> int \<times> int \<Rightarrow> (int \<times> int) arealocation" where
  "mk_area n title t g =
     \<lparr>name = n, titles = [(''en'', title)], can_search = True,
      routing_inclusion = ''default'', location_type = t, level = ground, geometry = g,
      can_describe = True\<rparr>"

definition floor0 :: "(int \<times> int) arealocation" where
  "floor0 = mk_area ''floor0'' ''Ground Floor'' Level (0, 100000)"

definition building :: "(int \<times> int) arealocation" where
  "building = mk_area ''building'' ''Main Building'' Area (0, 20000)"

definition wing_a :: "(int \<times> int) arealocation" where
  "wing_a = mk_area ''wing-a'' ''West Wing'' Area (100, 20000)"

definition wing_b :: "(int \<times> int) arealocation" where
  "wing_b = mk_area ''wing-b'' ''East Wing'' Area (99, 20000)"

definition room1 :: "(int \<times> int) arealocation" where
  "room1 = mk_area ''room1'' ''Room One'' Room (0, 10000)"

definition room2 :: "(int \<times> int) arealocation" where
  "room2 = mk_area ''room2'' ''Room Two'' Room (10000, 15000)"

definition spot :: "(int \<times> int) arealocation" where
  "spot = mk_area ''spot'' ''Info Point'' Poi (5, 5)"

definition odd_area :: "(int \<times> int) arealocation" where
  "odd_area = mk_area ''c:E1:10:20'' ''Oddly Named'' Room (30000, 30100)"

definition example_db :: "(int \<times> int) mapdata" where
  "example_db =
     \<lparr>levels_cached = [''ground'' \<mapsto> ground],
      arealocations = [floor0, building, wing_a, wing_b, room1, room2, spot, odd_area],
      locationgroups = []\<rparr>"

definition anyone :: "(int \<times> int) request" where
  "anyone = \<lparr>may_see_area = (\<lambda>a. True), may_see_group = (\<lambda>g. True)\<rparr>"

text \<open>The example map with two rooms only.\<close>

definition two_rooms_db :: "(int \<times> int) mapdata" where
  "two_rooms_db = example_db\<lparr>arealocations := [room1, room2]\<rparr>"

section \<open>The token filter in the spec's words\<close>

text \<open>
  \<^verbatim>\<open>' '.join(ws)\<close>: the words with one space between neighbours. The spec's ``splitting
  on single spaces'' is its inverse: the pieces of a string are the words, none of
  them containing a space, whose join is the string.
\<close>

fun join_space :: "string list \<Rightarrow> string" where
  "join_space [] = []"
| "join_space [w] = w"
| "join_space (w # v # ws) = w @ CHR '' '' # join_space (v # ws)"

definition pieces_of :: "string \<Rightarrow> string list \<Rightarrow> bool" where
  "pieces_of s ws =
     (ws \<noteq> [] \<and> list_all (\<lambda>w. CHR '' '' \<notin> set w) ws \<and> join_space ws = s)"

text \<open>
  The spec's token filter: a row with name \<open>n\<close> and titles \<open>ts\<close> passes when every
  token occurs, ignoring case, in the name or in some title.
\<close>

definition passes_tokens :: "string list \<Rightarrow> string \<Rightarrow> (string \<times> string) list \<Rightarrow> bool" where
  "passes_tokens tokens n ts =
     list_all (\<lambda>token. icontains n token \<or> list_ex (\<lambda>t. icontains t token) (map snd ts)) tokens"

section \<open>Properties of the constraint encoding\<close>

lemma get_ctypes_yes: "get_ctypes p ''yes'' = [p @ ''_up'', p @ ''_down'']"
  by (simp add: get_ctypes_def ctype_mapping_def)

lemma get_ctypes_up: "get_ctypes p ''up'' = [p @ ''_up'']"
  by (simp add: get_ctypes_def ctype_mapping_def)

lemma get_ctypes_down: "get_ctypes p ''down'' = [p @ ''_down'']"
  by (simp add: get_ctypes_def ctype_mapping_def)

lemma get_ctypes_no: "get_ctypes p ''no'' = []"
  by (simp add: get_ctypes_def ctype_mapping_def)

lemma get_ctypes_subset:
  "set (get_ctypes p v) \<subseteq> {p @ ''_up'', p @ ''_down''}"
  by (auto simp: get_ctypes_def ctype_mapping_def split: option.splits if_splits)

lemma stairs_not_other:
  "''stairs_up'' \<notin> set (get_ctypes ''escalator'' v)"
  "''stairs_down'' \<notin> set (get_ctypes ''escalator'' v)"
  "''stairs_up'' \<notin> set (get_ctypes ''elevator'' v)"
  "''stairs_down'' \<notin> set (get_ctypes ''elevator'' v)"
  using get_ctypes_subset [of "''escalator''" v] get_ctypes_subset [of "''elevator''" v]
  by auto

lemma escalator_not_other:
  "''escalator_up'' \<notin> set (get_ctypes ''stairs'' v)"
  "''escalator_down'' \<notin> set (get_ctypes ''stairs'' v)"
  "''escalator_up'' \<notin> set (get_ctypes ''elevator'' v)"
  "''escalator_down'' \<notin> set (get_ctypes ''elevator'' v)"
  using get_ctypes_subset [of "''stairs''" v] get_ctypes_subset [of "''elevator''" v]
  by auto

lemma elevator_not_other:
  "''elevator_up'' \<notin> set (get_ctypes ''stairs'' v)"
  "''elevator_down'' \<notin> set (get_ctypes ''stairs'' v)"
  "''elevator_up'' \<notin> set (get_ctypes ''escalator'' v)"
  "''elevator_down'' \<notin> set (get_ctypes ''escalator'' v)"
  using get_ctypes_subset [of "''stairs''" v] get_ctypes_subset [of "''escalator''" v]
  by auto

lemma stairs_member:
  "''stairs_up'' \<in> set (allowed_ctypes s e l) \<longleftrightarrow> ''stairs_up'' \<in> set (get_ctypes ''stairs'' s)"
  "''stairs_down'' \<in> set (allowed_ctypes s e l) \<longleftrightarrow> ''stairs_down'' \<in> set (get_ctypes ''stairs'' s)"
  using stairs_not_other [of e] stairs_not_other [of l]
  by (auto simp: allowed_ctypes_def)

lemma escalator_member:
  "''escalator_up'' \<in> set (allowed_ctypes s e l) \<longleftrightarrow> ''escalator_up'' \<in> set (get_ctypes ''escalator'' e)"
  "''escalator_down'' \<in> set (allowed_ctypes s e l) \<longleftrightarrow> ''escalator_down'' \<in> set (get_ctypes ''escalator'' e)"
  using escalator_not_other [of s] escalator_not_other [of l]
  by (auto simp: allowed_ctypes_def)

lemma elevator_member:
  "''elevator_up'' \<in> set (allowed_ctypes s e l) \<longleftrightarrow> ''elevator_up'' \<in> set (get_ctypes ''elevator'' l)"
  "''elevator_down'' \<in> set (allowed_ctypes s e l) \<longleftrightarrow> ''elevator_down'' \<in> set (get_ctypes ''elevator'' l)"
  using elevator_not_other [of s] elevator_not_other [of e]
  by (auto simp: allowed_ctypes_def)

text \<open>
  C8. Whatever the three settings are, the empty tag is allowed. With stairs set to
  \<open>no\<close> neither \<open>stairs_up\<close> nor \<open>stairs_down\<close> is allowed; for each of the three
  features, \<open>yes\<close> allows its up and its down tag, \<open>up\<close> its up tag and not its
  down tag, \<open>down\<close> its down tag and not its up tag, and \<open>no\<close> neither.
\<close>

theorem allowed_ctypes_translation:
  "'''' \<in> set (allowed_ctypes s e l)
   \<and> (s = ''no'' \<longrightarrow> ''stairs_up'' \<notin> set (allowed_ctypes s e l)
                     \<and> ''stairs_down'' \<notin> set (allowed_ctypes s e l))
   \<and> (s = ''yes'' \<longrightarrow> ''stairs_up'' \<in> set (allowed_ctypes s e l)
                     \<and> ''stairs_down'' \<in> set (allowed_ctypes s e l))
   \<and> (s = ''up'' \<longrightarrow> ''stairs_up'' \<in> set (allowed_ctypes s e l)
                     \<and> ''stairs_down'' \<notin> set (allowed_ctypes s e l))
   \<and> (s = ''down'' \<longrightarrow> ''stairs_up'' \<notin> set (allowed_ctypes s e l)
                     \<and> ''stairs_down'' \<in> set (allowed_ctypes s e l))
   \<and> (e = ''no'' \<longrightarrow> ''escalator_up'' \<notin> set (allowed_ctypes s e l)
                     \<and> ''escalator_down'' \<notin> set (allowed_ctypes s e l))
   \<and> (e = ''yes'' \<longrightarrow> ''escalator_up'' \<in> set (allowed_ctypes s e l)
                     \<and> ''escalator_down'' \<in> set (allowed_ctypes s e l))
   \<and> (e = ''up'' \<longrightarrow> ''escalator_up'' \<in> set (allowed_ctypes s e l)
                     \<and> ''escalator_down'' \<notin> set (allowed_ctypes s e l))
   \<and> (e = ''down'' \<longrightarrow> ''escalator_up'' \<notin> set (allowed_ctypes s e l)
                     \<and> ''escalator_down'' \<in> set (allowed_ctypes s e l))
   \<and> (l = ''no'' \<longrightarrow> ''elevator_up'' \<notin> set (allowed_ctypes s e l)
                     \<and> ''elevator_down'' \<notin> set (allowed_ctypes s e l))
   \<and> (l = ''yes'' \<longrightarrow> ''elevator_up'' \<in> set (allowed_ctypes s e l)
                     \<and> ''elevator_down'' \<in> set (allowed_ctypes s e l))
   \<and> (l = ''up'' \<longrightarrow> ''elevator_up'' \<in> set (allowed_ctypes s e l)
                     \<and> ''elevator_down'' \<notin> set (allowed_ctypes s e l))
   \<and> (l = ''down'' \<longrightarrow> ''elevator_up'' \<notin> set (allowed_ctypes s e l)
                     \<and> ''elevator_down'' \<in> set (allowed_ctypes s e l))"
proof -
  have empty: "'''' \<in> set (allowed_ctypes s e l)"
    by (simp add: allowed_ctypes_def)
  have s_cases:
    "s = ''no'' \<longrightarrow> ''stairs_up'' \<notin> set (allowed_ctypes s e l)
                     \<and> ''stairs_down'' \<notin> set (allowed_ctypes s e l)"
    "s = ''yes'' \<longrightarrow> ''stairs_up'' \<in> set (allowed_ctypes s e l)
                     \<and> ''stairs_down'' \<in> set (allowed_ctypes s e l)"
    "s = ''up'' \<longrightarrow> ''stairs_up'' \<in> set (allowed_ctypes s e l)
                     \<and> ''stairs_down'' \<notin> set (allowed_ctypes s e l)"
    "s = ''down'' \<longrightarrow> ''stairs_up'' \<notin> set (allowed_ctypes s e l)
                     \<and> ''stairs_down'' \<in> set (allowed_ctypes s e l)"
    by (simp_all add: stairs_member get_ctypes_yes get_ctypes_up get_ctypes_down get_ctypes_no)
  have e_cases:
    "e = ''no'' \<longrightarrow> ''escalator_up'' \<notin> set (allowed_ctypes s e l)
                     \<and> ''escalator_down'' \<notin> set (allowed_ctypes s e l)"
    "e = ''yes'' \<longrightarrow> ''escalator_up'' \<in> set (allowed_ctypes s e l)
                     \<and> ''escalator_down'' \<in> set (allowed_ctypes s e l)"
    "e = ''up'' \<longrightarrow> ''escalator_up'' \<in> set (allowed_ctypes s e l)
                     \<and> ''escalator_down'' \<notin> set (allowed_ctypes s e l)"
    "e = ''down'' \<longrightarrow> ''escalator_up'' \<notin> set (allowed_ctypes s e l)
                     \<and> ''escalator_down'' \<in> set (allowed_ctypes s e l)"
    by (simp_all add: escalator_member get_ctypes_yes get_ctypes_up get_ctypes_down get_ctypes_no)
  have l_cases:
    "l = ''no'' \<longrightarrow> ''elevator_up'' \<notin> set (allowed_ctypes s e l)
                     \<and> ''elevator_down'' \<notin> set (allowed_ctypes s e l)"
    "l = ''yes'' \<longrightarrow> ''elevator_up'' \<in> set (allowed_ctypes s e l)
                     \<and> ''elevator_down'' \<in> set (allowed_ctypes s e l)"
    "l = ''up'' \<longrightarrow> ''elevator_up'' \<in> set (allowed_ctypes s e l)
                     \<and> ''elevator_down'' \<notin> set (allowed_ctypes s e l)"
    "l = ''down'' \<longrightarrow> ''elevator_up'' \<notin> set (allowed_ctypes s e l)
                     \<and> ''elevator_down'' \<in> set (allowed_ctypes s e l)"
    by (simp_all add: elevator_member get_ctypes_yes get_ctypes_up get_ctypes_down get_ctypes_no)
  from empty s_cases e_cases l_cases show ?thesis by blast
qed

theorem allowed_ctypes_translation_witness:
  "'''' \<in> set (allowed_ctypes ''no'' ''yes'' ''up'')
   \<and> ''stairs_up'' \<notin> set (allowed_ctypes ''no'' ''yes'' ''up'')
   \<and> ''stairs_down'' \<notin> set (allowed_ctypes ''no'' ''yes'' ''up'')
   \<and> ''escalator_up'' \<in> set (allowed_ctypes ''no'' ''yes'' ''up'')
   \<and> ''escalator_down'' \<in> set (allowed_ctypes ''no'' ''yes'' ''up'')
   \<and> ''elevator_up'' \<in> set (allowed_ctypes ''no'' ''yes'' ''up'')
   \<and> ''elevator_down'' \<notin> set (allowed_ctypes ''no'' ''yes'' ''up'')
   \<and> allowed_ctypes ''no'' ''yes'' ''up''
       = ['''', ''escalator_up'', ''escalator_down'', ''elevator_up'']"
  using allowed_ctypes_translation [of "''no''" "''yes''" "''up''"]
  by (simp add: allowed_ctypes_def get_ctypes_def ctype_mapping_def)

text \<open>
  C9. For every feature name and each of the four settings, reading the setting back
  from the tags that \<open>get_ctypes\<close> produced gives the setting.
\<close>

theorem reverse_get_ctypes:
  "v \<in> {''yes'', ''up'', ''down'', ''no''} \<Longrightarrow>
     reverse_ctypes (get_ctypes feature v) feature = v"
  by (auto simp: reverse_ctypes_def get_ctypes_yes get_ctypes_up get_ctypes_down
        get_ctypes_no)

theorem reverse_get_ctypes_witness:
  "''down'' \<in> {''yes'', ''up'', ''down'', ''no''}
   \<and> get_ctypes ''escalator'' ''down'' = [''escalator_down'']
   \<and> reverse_ctypes (get_ctypes ''escalator'' ''down'') ''escalator'' = ''down''"
  using reverse_get_ctypes [of "''down''" "''escalator''"]
  by (simp add: get_ctypes_down)

section \<open>Properties of strings and querysets\<close>

lemmas example_defs = example_db_def anyone_def floor0_def building_def wing_a_def wing_b_def
  room1_def room2_def spot_def odd_area_def mk_area_def ground_def

lemmas string_defs = icontains_def titles_icontains_def lower_char_def level_char_def
  digit_char_def digit_chars_def match_coord_def

text \<open>\<open>contains\<close> is the substring test.\<close>

lemma contains_iff: "contains s w \<longleftrightarrow> (\<exists>p q. s = p @ w @ q)"
proof (induction s)
  case Nil
  then show ?case by auto
next
  case (Cons c s)
  show ?case
  proof
    assume "contains (c # s) w"
    then consider "prefix w (c # s)" | "contains s w" by auto
    then show "\<exists>p q. c # s = p @ w @ q"
    proof cases
      case 1
      then obtain q where "c # s = w @ q" by (auto simp: prefix_def)
      then have "c # s = [] @ w @ q" by simp
      then show ?thesis by blast
    next
      case 2
      with Cons.IH obtain p q where "s = p @ w @ q" by blast
      then have "c # s = (c # p) @ w @ q" by simp
      then show ?thesis by blast
    qed
  next
    assume "\<exists>p q. c # s = p @ w @ q"
    then obtain p q where pq: "c # s = p @ w @ q" by blast
    show "contains (c # s) w"
    proof (cases p)
      case Nil
      with pq have "prefix w (c # s)" by (simp add: prefix_def)
      then show ?thesis by simp
    next
      case (Cons d p')
      with pq have "s = p' @ w @ q" by simp
      with Cons.IH have "contains s w" by blast
      then show ?thesis by simp
    qed
  qed
qed

lemma filter_words_set:
  "set (filter_words queryset words) =
     {row \<in> set queryset. \<forall>word \<in> set words.
        icontains (name row) word \<or> titles_icontains (titles row) word}"
  by (induction words arbitrary: queryset) auto

lemma titles_icontains_iff:
  "titles_icontains ts w \<longleftrightarrow> (\<exists>t \<in> snd ` set ts. icontains t w)"
  by (simp add: titles_icontains_def list_ex_iff)

section \<open>Properties of resolution and search\<close>

lemma first_filter: "first (filter P rows) = find P rows"
  by (induction rows) (auto simp: first_def)

text \<open>
  C10. An identifier that starts with \<open>c:\<close> and does not match the coordinate pattern
  is looked up, whole, as the name of an AreaLocation: the result is the first row
  with that name that the request may see, and \<open>None\<close> when there is none.
\<close>

theorem c_prefix_falls_through:
  assumes "take 2 ident = ''c:''" and "match_coord ident = None"
  shows "get_location db request ident
         = Inr (map_option AreaLoc
             (find (\<lambda>a. name a = ident \<and> may_see_area request a) (arealocations db)))"
  using assms
  by (simp add: get_location_def filter_queryset_by_package_access_def first_filter)

theorem c_prefix_falls_through_witness:
  "take 2 ''c:E1:10:20'' = ''c:'' \<and> match_coord ''c:E1:10:20'' = None
   \<and> get_location example_db anyone ''c:E1:10:20'' = Inr (Some (AreaLoc odd_area))"
  using c_prefix_falls_through [of "''c:E1:10:20''" example_db anyone]
  by (simp add: example_defs string_defs)

lemma split_space_nonempty: "split_space s \<noteq> []"
  by (induction s) (auto split: list.splits)

lemma split_space_hd_prefix: "prefix (hd (split_space s)) s"
  by (induction s) (auto split: list.splits)

lemma split_space_contains: "w \<in> set (split_space s) \<Longrightarrow> contains s w"
proof (induction s arbitrary: w)
  case Nil
  then show ?case by simp
next
  case (Cons c s)
  show ?case
  proof (cases "c = CHR '' ''")
    case True
    with Cons.prems have "w = [] \<or> w \<in> set (split_space s)" by simp
    with Cons.IH show ?thesis by auto
  next
    case False
    obtain w0 ws where sp: "split_space s = w0 # ws"
      using split_space_nonempty [of s] by (cases "split_space s") auto
    with False Cons.prems have "w = c # w0 \<or> w \<in> set ws" by simp
    then show ?thesis
    proof
      assume "w = c # w0"
      moreover from split_space_hd_prefix [of s] sp have "prefix w0 s" by simp
      ultimately show ?thesis by simp
    next
      assume "w \<in> set ws"
      with sp have "w \<in> set (split_space s)" by simp
      with Cons.IH show ?thesis by simp
    qed
  qed
qed

lemma contains_map: "contains s w \<Longrightarrow> contains (map f s) (map f w)"
  unfolding contains_iff by (metis map_append)

lemma icontains_split_space: "w \<in> set (take 10 (split_space s)) \<Longrightarrow> icontains s w"
  by (auto simp: icontains_def dest!: in_set_takeD split_space_contains intro: contains_map)

lemma first_Some_mem: "first rows = Some a \<Longrightarrow> a \<in> set rows"
  by (cases rows) (auto simp: first_def)

lemma set_sorted_reverse: "set (sorted_reverse key rows) = set rows"
  by (simp add: sorted_reverse_def)

text \<open>
  Whenever direct resolution gives an AreaLocation, the same area is also among the
  area matches: its name is the query, and every word of the query occurs in it.
\<close>

lemma direct_area_match_repeated:
  assumes "get_location db request search = Inr (Some (AreaLoc a))"
  shows "\<exists>rest. search_location db request search = Inr (AreaLoc a # rest)
           \<and> AreaLoc a \<in> set rest"
proof -
  from assms have "first (filter_queryset_by_package_access (may_see_area request)
        (filter (\<lambda>a. name a = search) (arealocations db))) = Some a"
    by (auto simp: get_location_def split: option.splits sum.splits if_splits)
  from first_Some_mem [OF this]
  have a: "a \<in> set (arealocations db)" "may_see_area request a" "name a = search"
    by (simp_all add: filter_queryset_by_package_access_def)
  have "a \<in> set (area_matches db request (Some (AreaLoc a)) (take 10 (split_space search)))"
    using a icontains_split_space [of _ search]
    by (auto simp: area_matches_def Let_def set_sorted_reverse filter_words_set
        filter_queryset_by_package_access_def)
  with assms show ?thesis
    by (simp add: search_location_def Let_def)
qed

text \<open>
  C2. The claim is that an AreaLocation found by direct resolution does not appear
  again among the area matches. Here the query \<open>room1\<close> resolves to the area
  \<open>room1\<close>, and the result lists that area twice: once as the direct match and once
  as an area match.
\<close>

theorem search_location_repeats_direct_match:
  "search_location example_db anyone ''room1'' = Inr [AreaLoc room1, AreaLoc room1]"
  by (simp add: search_location_def get_location_def area_matches_def group_matches_def
      filter_queryset_by_package_access_def first_def exclude_name_def sorted_reverse_def
      get_sort_key_def LOCATION_TYPES_ORDER_def example_defs string_defs)

section \<open>Properties of the float model and of the enclosing areas\<close>

lemmas float_defs = round_ratio_def round_pos_def floor_log2_def round_half_even_def
  compute_bitlen Let_def

lemma quotient_of_ratio:
  "0 < b \<Longrightarrow> coprime a b \<Longrightarrow> quotient_of (of_int a / of_int b) = (a, b)"
  by (metis Fract_of_int_quotient normalize_stable quotient_of_Fract)

lemma coprime_by_bezout: "a * x + b * y = (1::int) \<Longrightarrow> coprime a b"
  by (metis coprime_def dvd_add dvd_mult2 dvd_refl coprimeI dvd_add_right_iff dvd_mult)

lemma literal_0_99_value: "literal_0_99 = Fin (4458563631096791 / 4503599627370496)"
  by (simp add: literal_0_99_def float_defs)

lemma round_double_0: "round_double 0 = Fin 0"
  by (simp add: round_double_def round_ratio_def)

lemma zero_ratio_fails: "\<not> float_gt (ieee_div (Fin 0) b) literal_0_99"
  by (cases b) (simp_all add: ieee_div_def float_gt_def round_double_0 literal_0_99_value)

lemma float_le_antisym_0: "float_le (Fin 0) a \<Longrightarrow> float_le a (Fin 0) \<Longrightarrow> a = Fin 0"
  by (cases a) (auto simp: float_le_def float_gt_def)


lemma scan_arealocations_Inr:
  "scan_arealocations area intersection sg ma cands acc = Inr r \<Longrightarrow>
     r = acc @ filter (overlap_passes area intersection sg ma) cands"
proof (induction cands arbitrary: acc)
  case Nil
  then show ?case by simp
next
  case (Cons a cands)
  show ?case
  proof (cases "float_bool (area (intersection (geometry a) sg))")
    case False
    with Cons.prems have "scan_arealocations area intersection sg ma cands acc = Inr r"
      by (simp add: Let_def)
    from Cons.IH [OF this] False show ?thesis
      by (simp add: overlap_passes_def)
  next
    case True
    with Cons.prems obtain ratio where
      d: "float_div (area (intersection (geometry a) sg)) ma = Inr ratio" and
      s: "scan_arealocations area intersection sg ma cands
            (if float_gt ratio literal_0_99 then acc @ [a] else acc) = Inr r"
      by (auto simp: Let_def split: sum.splits)
    from d have ratio: "ratio = ieee_div (area (intersection (geometry a) sg)) ma"
      by (auto simp: float_div_def split: if_splits)
    from Cons.IH [OF s] True ratio show ?thesis
      by (simp add: overlap_passes_def)
  qed
qed

lemma scan_arealocations_divides:
  "scan_arealocations area intersection sg ma cands acc = Inr r \<Longrightarrow> a \<in> set cands \<Longrightarrow>
     float_bool (area (intersection (geometry a) sg)) \<Longrightarrow> ma \<noteq> Fin 0"
proof (induction cands arbitrary: acc)
  case Nil
  then show ?case by simp
next
  case (Cons c cands)
  show ?case
  proof (cases "a = c")
    case True
    with Cons.prems show ?thesis
      by (auto simp: Let_def float_div_def split: sum.splits if_splits)
  next
    case False
    with Cons.prems have "a \<in> set cands" by simp
    moreover from Cons.prems(1) obtain acc' where
      "scan_arealocations area intersection sg ma cands acc' = Inr r"
      by (auto simp: Let_def split: sum.splits if_splits)
    ultimately show ?thesis using Cons.IH Cons.prems(3) by blast
  qed
qed

lemma scan_arealocations_zero:
  "\<forall>a \<in> set cands. area (intersection (geometry a) sg) = Fin 0 \<Longrightarrow>
     scan_arealocations area intersection sg ma cands acc = Inr acc"
  by (induction cands arbitrary: acc) (simp_all add: float_bool_def)

lemma scan_location_types_Inr:
  "scan_location_types area intersection rows self ma ts acc = Inr r \<Longrightarrow>
     r = acc @ concat (map (passing_rows area intersection rows self ma) ts)"
proof (induction ts arbitrary: acc)
  case Nil
  then show ?case by simp
next
  case (Cons t ts)
  from Cons.prems obtain acc' where
    a: "scan_arealocations area intersection (geometry self) ma
          (filter (\<lambda>a. location_type a = t \<and> level a = level self) rows) acc = Inr acc'" and
    b: "scan_location_types area intersection rows self ma ts acc' = Inr r"
    by (auto split: sum.splits)
  from scan_arealocations_Inr [OF a] Cons.IH [OF b] show ?case
    by (simp add: passing_rows_def)
qed

lemma scan_location_types_divides:
  "scan_location_types area intersection rows self ma ts acc = Inr r \<Longrightarrow>
     a \<in> set rows \<Longrightarrow> location_type a \<in> set ts \<Longrightarrow> level a = level self \<Longrightarrow>
     float_bool (area (intersection (geometry a) (geometry self))) \<Longrightarrow> ma \<noteq> Fin 0"
proof (induction ts arbitrary: acc)
  case Nil
  then show ?case by simp
next
  case (Cons t ts)
  from Cons.prems(1) obtain acc' where
    a: "scan_arealocations area intersection (geometry self) ma
          (filter (\<lambda>a. location_type a = t \<and> level a = level self) rows) acc = Inr acc'" and
    b: "scan_location_types area intersection rows self ma ts acc' = Inr r"
    by (auto split: sum.splits)
  show ?case
  proof (cases "location_type a = t")
    case True
    with Cons.prems have "a \<in> set (filter (\<lambda>a. location_type a = t \<and> level a = level self) rows)"
      by simp
    from scan_arealocations_divides [OF a this Cons.prems(5)] show ?thesis .
  next
    case False
    with Cons.prems(3) have "location_type a \<in> set ts" by simp
    from Cons.IH [OF b Cons.prems(2) this Cons.prems(4) Cons.prems(5)] show ?thesis .
  qed
qed

lemma scan_location_types_zero:
  "\<forall>a \<in> set rows. area (intersection (geometry a) (geometry self)) = Fin 0 \<Longrightarrow>
     scan_location_types area intersection rows self ma ts acc = Inr acc"
  by (induction ts arbitrary: acc) (simp_all add: scan_arealocations_zero)



lemma get_in_areas_Inr:
  "AreaLocation_get_in_areas area intersection rows self = Inr r \<Longrightarrow>
     r = concat (map (passing_rows area intersection rows self (area (geometry self)))
           (rev (take (get_sort_key self) LOCATION_TYPES_ORDER)))"
  using scan_location_types_Inr [of area intersection rows self "area (geometry self)" _ "[]" r]
  by (simp add: AreaLocation_get_in_areas_def Let_def)

lemma get_sort_key_type_key: "get_sort_key a = type_key (location_type a)"
  by (simp add: get_sort_key_def type_key_def)

lemma passing_rows_type: "a \<in> set (passing_rows area intersection rows self ma t) \<Longrightarrow> location_type a = t"
  by (simp add: passing_rows_def)

lemma sorted_concat_passing:
  "sorted_wrt (\<lambda>s t. type_key t \<le> type_key s) ts \<Longrightarrow>
     sorted_wrt (\<lambda>a b. get_sort_key b \<le> get_sort_key a)
       (concat (map (passing_rows area intersection rows self ma) ts))"
proof (induction ts)
  case Nil
  then show ?case by simp
next
  case (Cons t ts)
  have same: "sorted_wrt (\<lambda>a b. get_sort_key b \<le> get_sort_key a)
      (passing_rows area intersection rows self ma t)"
    by (rule sorted_wrt_mono_rel [of _ "\<lambda>a b. True"])
      (auto simp: get_sort_key_type_key dest!: passing_rows_type)
  have cross: "get_sort_key b \<le> get_sort_key a"
    if "a \<in> set (passing_rows area intersection rows self ma t)"
      and "b \<in> set (concat (map (passing_rows area intersection rows self ma) ts))" for a b
  proof -
    from that(2) obtain u where u: "u \<in> set ts" "b \<in> set (passing_rows area intersection rows self ma u)"
      by auto
    from Cons.prems u(1) have "type_key u \<le> type_key t" by simp
    with that(1) u(2) show ?thesis
      by (auto simp: get_sort_key_type_key dest!: passing_rows_type)
  qed
  from Cons have rest: "sorted_wrt (\<lambda>a b. get_sort_key b \<le> get_sort_key a)
      (concat (map (passing_rows area intersection rows self ma) ts))"
    by simp
  from same rest cross show ?case
    by (simp add: sorted_wrt_append)
qed

lemma coarser_types_descending:
  "sorted_wrt (\<lambda>s t. type_key t \<le> type_key s) (rev (take (type_key u) LOCATION_TYPES_ORDER))"
  by (cases u) (simp_all add: type_key_def LOCATION_TYPES_ORDER_def)

lemma in_coarser_types:
  "t \<in> set (rev (take (type_key u) LOCATION_TYPES_ORDER)) \<longleftrightarrow> type_key t < type_key u"
  by (cases u; cases t) (simp_all add: type_key_def LOCATION_TYPES_ORDER_def)

lemma get_in_areas_sorted:
  "AreaLocation_get_in_areas area intersection rows self = Inr r \<Longrightarrow>
     sorted_wrt (\<lambda>a b. get_sort_key b \<le> get_sort_key a) r"
  using get_in_areas_Inr [of area intersection rows self r]
    sorted_concat_passing [OF coarser_types_descending, of area intersection rows self
      "area (geometry self)" "location_type self"]
  by (simp add: get_sort_key_type_key)

lemma get_in_areas_member:
  assumes "AreaLocation_get_in_areas area intersection rows self = Inr r"
  shows "a \<in> set r \<longleftrightarrow>
     a \<in> set rows \<and> level a = level self \<and> get_sort_key a < get_sort_key self
     \<and> overlap_passes area intersection (geometry self) (area (geometry self)) a"
  using get_in_areas_Inr [OF assms] in_coarser_types [of "location_type a" "location_type self"]
  by (auto simp: passing_rows_def get_sort_key_type_key)


text \<open>
  C3, as amended. The claim says that coarser enclosing areas come first; the loop
  runs over \<^verbatim>\<open>reversed(LOCATION_TYPES_ORDER[:i])\<close>, so it is the other way round:
  whenever one entry of the result has a finer location type (a larger ordinal) than
  another, the finer one comes first.
\<close>

theorem in_areas_finest_first:
  assumes "AreaLocation_get_in_areas area intersection rows self = Inr r"
    and "i < length r" and "j < length r"
    and "get_sort_key (r ! j) < get_sort_key (r ! i)"
  shows "i < j"
proof (rule ccontr)
  assume "\<not> i < j"
  with assms(4) have "j < i" by (cases "i = j") auto
  with get_in_areas_sorted [OF assms(1)] assms(2)
  have "get_sort_key (r ! i) \<le> get_sort_key (r ! j)"
    by (simp add: sorted_wrt_iff_nth_less)
  with assms(4) show False by simp
qed

text \<open>
  C4. For a row of a coarser type on the level of \<open>self\<close>, when \<open>_get_in_areas\<close>
  returns: the row is in the result if and only if the quotient of the intersection
  area by \<open>my_area\<close> is computed and is greater than the float \<^verbatim>\<open>0.99\<close>. A quotient
  equal to \<^verbatim>\<open>0.99\<close> leaves the row out and a quotient equal to the float
  \<^verbatim>\<open>0.9901\<close> puts it in.
\<close>

theorem in_areas_threshold:
  assumes "AreaLocation_get_in_areas area intersection rows self = Inr r"
    and "a \<in> set rows" and "level a = level self"
    and "get_sort_key a < get_sort_key self"
  defines "ia \<equiv> area (intersection (geometry a) (geometry self))"
    and "my_area \<equiv> area (geometry self)"
  shows "(a \<in> set r \<longleftrightarrow> (\<exists>ratio. float_div ia my_area = Inr ratio \<and> float_gt ratio literal_0_99))
       \<and> (float_div ia my_area = Inr literal_0_99 \<longrightarrow> a \<notin> set r)
       \<and> (float_div ia my_area = Inr (round_ratio 9901 10000) \<longrightarrow> a \<in> set r)"
proof -
  have types: "location_type a \<in> set (rev (take (get_sort_key self) LOCATION_TYPES_ORDER))"
    using assms(4) in_coarser_types [of "location_type a" "location_type self"]
    by (simp add: get_sort_key_type_key)
  have scan: "scan_location_types area intersection rows self my_area
      (rev (take (get_sort_key self) LOCATION_TYPES_ORDER)) [] = Inr r"
    using assms(1) by (simp add: AreaLocation_get_in_areas_def Let_def my_area_def)
  have nonzero: "my_area \<noteq> Fin 0" if "float_bool ia"
    using scan_location_types_divides [OF scan assms(2) types assms(3)] that
    by (simp add: ia_def)
  have mem: "a \<in> set r \<longleftrightarrow> float_bool ia \<and> float_gt (ieee_div ia my_area) literal_0_99"
    using get_in_areas_member [OF assms(1), of a] assms(2-4)
    by (simp add: overlap_passes_def ia_def my_area_def)
  have iff: "a \<in> set r \<longleftrightarrow> (\<exists>ratio. float_div ia my_area = Inr ratio \<and> float_gt ratio literal_0_99)"
  proof (cases "float_bool ia")
    case True
    with nonzero mem show ?thesis by (simp add: float_div_def)
  next
    case False
    then have "ia = Fin 0" by (simp add: float_bool_def)
    with mem zero_ratio_fails [of my_area] show ?thesis
      by (auto simp: float_div_def split: if_splits)
  qed
  have below: "\<not> float_gt literal_0_99 literal_0_99"
    by (simp add: literal_0_99_value float_gt_def)
  have above: "float_gt (round_ratio 9901 10000) literal_0_99"
    by (simp add: literal_0_99_value float_gt_def float_defs)
  from iff below above show ?thesis by auto
qed

text \<open>
  C5. When the geometry of \<open>self\<close> has area zero, and the area of each intersection
  with it is at least zero and at most the area of \<open>self\<close>, \<open>_get_in_areas\<close> returns
  the empty list; in particular it does not raise ZeroDivisionError.
\<close>

theorem in_areas_empty_for_zero_area:
  assumes "area (geometry self) = Fin 0"
    and "\<forall>a \<in> set rows. float_le (Fin 0) (area (intersection (geometry a) (geometry self)))
           \<and> float_le (area (intersection (geometry a) (geometry self))) (area (geometry self))"
  shows "AreaLocation_get_in_areas area intersection rows self = Inr []"
proof -
  from assms have "\<forall>a \<in> set rows. area (intersection (geometry a) (geometry self)) = Fin 0"
    by (auto intro: float_le_antisym_0)
  then show ?thesis
    by (simp add: AreaLocation_get_in_areas_def Let_def scan_location_types_zero)
qed



lemma quotient_of_dyadic:
  "odd a \<Longrightarrow> quotient_of (of_int a / 2 ^ k) = (a, 2 ^ k)"
  using quotient_of_ratio [of "2 ^ k" a] by simp

lemma bitlen_1: "bitlen 1 = 1"
  by (subst compute_bitlen) simp

lemma floor_log2_1: "floor_log2 1 1 = 0"
  by (simp add: floor_log2_def bitlen_1)

lemma round_double_1: "round_double 1 = Fin 1"
  by (simp add: round_double_def round_ratio_def round_pos_def floor_log2_1
      round_half_even_def Let_def)

lemma round_double_99: "round_double (99 / 100) = literal_0_99"
proof -
  have "coprime (99::int) 100"
    by (rule coprime_by_bezout [of _ "- 1" _ 1]) simp
  from quotient_of_ratio [OF _ this] have "quotient_of (99 / 100) = (99, 100)"
    by simp
  then show ?thesis
    by (simp add: round_double_def literal_0_99_def)
qed

lemma round_ratio_9901: "round_ratio 9901 10000 = Fin (557376748882441 / 562949953421312)"
  by (simp add: float_defs)

lemma round_double_9901: "round_double (9901 / 10000) = Fin (557376748882441 / 562949953421312)"
proof -
  have "coprime (9901::int) 10000"
    by (rule coprime_by_bezout [of _ 101 _ "- 100"]) simp
  from quotient_of_ratio [OF _ this] have "quotient_of (9901 / 10000) = (9901, 10000)"
    by simp
  then show ?thesis
    by (simp add: round_double_def round_ratio_9901)
qed


lemma example_in_areas:
  "AreaLocation_get_in_areas interval_area interval_intersection (arealocations example_db) room1
   = Inr [building, wing_b, floor0]"
  by (simp add: AreaLocation_get_in_areas_def get_sort_key_def LOCATION_TYPES_ORDER_def
      interval_area_def interval_intersection_def float_bool_def float_div_def ieee_div_def
      round_double_1 round_double_99 round_double_9901 literal_0_99_value float_gt_def
      example_defs)


text \<open>
  C3, as stated, fails on the example map: for \<open>room1\<close> the result lists the
  building (an area, ordinal 1) before the floor (a level, ordinal 0), the finer
  before the coarser.
\<close>

theorem in_areas_coarsest_first_counterexample:
  "AreaLocation_get_in_areas interval_area interval_intersection (arealocations example_db) room1
     = Inr [building, wing_b, floor0]
   \<and> get_sort_key floor0 = 0 \<and> get_sort_key building = 1"
  using example_in_areas
  by (simp add: get_sort_key_def LOCATION_TYPES_ORDER_def example_defs)

theorem in_areas_finest_first_witness:
  "AreaLocation_get_in_areas interval_area interval_intersection (arealocations example_db) room1
     = Inr [building, wing_b, floor0]
   \<and> (0::nat) < length [building, wing_b, floor0] \<and> (2::nat) < length [building, wing_b, floor0]
   \<and> get_sort_key ([building, wing_b, floor0] ! 2) < get_sort_key ([building, wing_b, floor0] ! 0)
   \<and> (0::nat) < 2"
  using in_areas_finest_first [OF example_in_areas, of 0 2] example_in_areas
  by (simp add: get_sort_key_def LOCATION_TYPES_ORDER_def example_defs)


theorem in_areas_threshold_witness:
  "AreaLocation_get_in_areas interval_area interval_intersection (arealocations example_db) room1
     = Inr [building, wing_b, floor0]
   \<and> float_div (interval_area (interval_intersection (geometry wing_a) (geometry room1)))
        (interval_area (geometry room1)) = Inr literal_0_99
   \<and> wing_a \<notin> set [building, wing_b, floor0]
   \<and> float_div (interval_area (interval_intersection (geometry wing_b) (geometry room1)))
        (interval_area (geometry room1)) = Inr (round_ratio 9901 10000)
   \<and> wing_b \<in> set [building, wing_b, floor0]"
proof -
  have rows: "wing_a \<in> set (arealocations example_db)" "wing_b \<in> set (arealocations example_db)"
    by (simp_all add: example_db_def)
  have levels: "level wing_a = level room1" "level wing_b = level room1"
    by (simp_all add: example_defs)
  have keys: "get_sort_key wing_a < get_sort_key room1" "get_sort_key wing_b < get_sort_key room1"
    by (simp_all add: get_sort_key_def LOCATION_TYPES_ORDER_def example_defs)
  have ratio_a: "float_div (interval_area (interval_intersection (geometry wing_a) (geometry room1)))
        (interval_area (geometry room1)) = Inr literal_0_99"
    by (simp add: interval_area_def interval_intersection_def float_div_def ieee_div_def
        round_double_99 example_defs)
  have ratio_b: "float_div (interval_area (interval_intersection (geometry wing_b) (geometry room1)))
        (interval_area (geometry room1)) = Inr (round_ratio 9901 10000)"
    by (simp add: interval_area_def interval_intersection_def float_div_def ieee_div_def
        round_double_9901 round_ratio_9901 example_defs)
  from in_areas_threshold [OF example_in_areas rows(1) levels(1) keys(1)] ratio_a
  have a: "wing_a \<notin> set [building, wing_b, floor0]" by blast
  from in_areas_threshold [OF example_in_areas rows(2) levels(2) keys(2)] ratio_b
  have b: "wing_b \<in> set [building, wing_b, floor0]" by blast
  from example_in_areas ratio_a ratio_b a b show ?thesis by blast
qed


theorem in_areas_empty_for_zero_area_witness:
  "interval_area (geometry spot) = Fin 0
   \<and> AreaLocation_get_in_areas interval_area interval_intersection (arealocations example_db) spot
       = Inr []"
proof -
  have zero: "interval_area (geometry spot) = Fin 0"
    by (simp add: interval_area_def example_defs)
  have bounds: "\<forall>a \<in> set (arealocations example_db).
         float_le (Fin 0) (interval_area (interval_intersection (geometry a) (geometry spot)))
         \<and> float_le (interval_area (interval_intersection (geometry a) (geometry spot)))
              (interval_area (geometry spot))"
    by (simp add: interval_area_def interval_intersection_def float_le_def float_gt_def
        example_defs)
  from in_areas_empty_for_zero_area
         [where area = interval_area and intersection = interval_intersection
            and self = spot and rows = "arealocations example_db", OF zero bounds]
       zero
  show ?thesis by blast
qed

section \<open>Coordinate identifiers\<close>

lemma truediv_29: "int_truediv 29 100 = Inr (Fin (5224175567749775 / 18014398509481984))"
  by (simp add: int_truediv_def float_defs)

lemma truediv_28: "int_truediv 28 100 = Inr (Fin (1261007895663739 / 4503599627370496))"
  by (simp add: int_truediv_def float_defs)

lemma truediv_0: "int_truediv 0 100 = Inr (Fin 0)"
  by (simp add: int_truediv_def round_ratio_def)


lemma mul_29_100:
  "float_mul (Fin (5224175567749775 / 18014398509481984)) (Fin 100)
   = Fin (8162774324609023 / 281474976710656)"
proof -
  have "quotient_of (130604389193744375 / 4503599627370496)
        = (130604389193744375, 4503599627370496)"
    using quotient_of_dyadic [of 130604389193744375 52] by simp
  moreover have "round_ratio 130604389193744375 4503599627370496
        = Fin (8162774324609023 / 281474976710656)"
    by (simp add: float_defs)
  ultimately show ?thesis
    by (simp add: float_mul_def round_double_def)
qed

lemma mul_0_100: "float_mul (Fin 0) (Fin 100) = Fin 0"
  by (simp add: float_mul_def round_double_0)


lemma str_of_nat_28: "str_of_nat 28 = ''28''"
  by (simp add: str_of_nat.simps [of 28] str_of_nat.simps [of 2] digit_chars_def)

lemma str_of_nat_0: "str_of_nat 0 = ''0''"
  by (simp add: str_of_nat.simps [of 0] digit_chars_def)

lemma format_28: "format_d (Fin (8162774324609023 / 281474976710656)) = Inr ''28''"
proof -
  have "\<lfloor>8162774324609023 / 281474976710656 :: rat\<rfloor> = 28"
    by (simp add: floor_eq_iff)
  then show ?thesis
    by (simp add: format_d_def float_to_int_def str_of_int_def str_of_nat_28)
qed

lemma format_0: "format_d (Fin 0) = Inr ''0''"
  by (simp add: format_d_def float_to_int_def str_of_int_def str_of_nat_0)


lemma match_ground_28_0: "match_coord ''c:ground:28:0'' = Some (''ground'', ''28'', ''0'')"
  by (simp add: string_defs)

lemma digits_28: "int_of_digits ''28'' = 28" "int_of_digits ''0'' = 0"
  by (simp_all add: int_of_digits_def digit_value_def digit_chars_def)


text \<open>
  C1. The claim is that resolving the identifier of the point
  \<open>(level, x_raw/100, y_raw/100)\<close> gives the same point back. For the level
  \<open>ground\<close> and \<open>x_raw = 29\<close>, \<open>y_raw = 0\<close> it does not: \<^verbatim>\<open>29/100\<close> is the double
  just below \<open>0.29\<close>, its product with \<open>100\<close> rounds to the double just below \<open>29\<close>,
  \<^verbatim>\<open>%d\<close> truncates that to \<open>28\<close>, and the identifier \<open>c:ground:28:0\<close> resolves to
  the point with \<open>x = 28/100\<close>.
\<close>

theorem point_round_trip_fails:
  "int_truediv 29 100 = Inr (Fin (5224175567749775 / 18014398509481984))
   \<and> int_truediv 0 100 = Inr (Fin 0)
   \<and> levels_cached example_db ''ground'' = Some ground
   \<and> point_location_id
        \<lparr>p_level = ground, p_x = Fin (5224175567749775 / 18014398509481984), p_y = Fin 0\<rparr>
       = Inr ''c:ground:28:0''
   \<and> get_location example_db anyone ''c:ground:28:0''
       = Inr (Some (PointLoc
           \<lparr>p_level = ground, p_x = Fin (1261007895663739 / 4503599627370496), p_y = Fin 0\<rparr>))
   \<and> Fin (1261007895663739 / 4503599627370496) \<noteq> Fin (5224175567749775 / 18014398509481984)"
proof -
  have id: "point_location_id
        \<lparr>p_level = ground, p_x = Fin (5224175567749775 / 18014398509481984), p_y = Fin 0\<rparr>
       = Inr ''c:ground:28:0''"
    by (simp add: point_location_id_def mul_29_100 mul_0_100 format_28 format_0 ground_def)
  have lvl: "levels_cached example_db ''ground'' = Some ground"
    by (simp add: example_db_def)
  have res: "get_location example_db anyone ''c:ground:28:0''
       = Inr (Some (PointLoc
           \<lparr>p_level = ground, p_x = Fin (1261007895663739 / 4503599627370496), p_y = Fin 0\<rparr>))"
    by (simp add: get_location_def match_ground_28_0 lvl digits_28 truediv_28 truediv_0)
  from truediv_29 truediv_0 lvl id res show ?thesis by simp
qed



lemma bitlen_mono: "a \<le> b \<Longrightarrow> bitlen a \<le> bitlen b"
  by (simp add: bitlen_def floorlog_mono)

lemma floor_log2_ge:
  assumes "0 < d" and "d * 2 ^ k \<le> n"
  shows "int k \<le> floor_log2 n d"
proof -
  have "bitlen (d * 2 ^ k) = bitlen d + int k"
    using assms(1) by simp
  with bitlen_mono [OF assms(2)] have K: "int k \<le> bitlen n - bitlen d"
    by simp
  show ?thesis
  proof (cases "bitlen n - bitlen d = int k")
    case True
    with assms(2) show ?thesis
      by (simp add: floor_log2_def Let_def)
  next
    case False
    with K have "int k < bitlen n - bitlen d" by simp
    then show ?thesis
      by (simp add: floor_log2_def Let_def)
  qed
qed

lemma round_pos_overflow:
  assumes "0 < d" and "d * 2 ^ 1024 \<le> n"
  shows "round_pos n d = PInf"
  using floor_log2_ge [OF assms] by (simp add: round_pos_def Let_def)

lemma truediv_overflow: "int_truediv (10 ^ 311) 100 = Inl OverflowError"
proof -
  have "round_pos (10 ^ 311) 100 = PInf"
    by (rule round_pos_overflow) simp_all
  then show ?thesis
    by (simp add: int_truediv_def round_ratio_def)
qed


lemma foldl_zeros:
  "foldl (\<lambda>acc c. 10 * acc + digit_value c) a (replicate n (CHR ''0'')) = a * 10 ^ n"
  by (induction n arbitrary: a) (simp_all add: digit_value_def digit_chars_def)

lemma int_of_digits_power: "int_of_digits (CHR ''1'' # replicate n (CHR ''0'')) = 10 ^ n"
  by (simp add: int_of_digits_def foldl_zeros) (simp add: digit_value_def digit_chars_def)

lemma match_coord_formatted:
  assumes "lvl \<noteq> []" and "\<forall>c \<in> set lvl. level_char c"
    and "xs \<noteq> []" and "\<forall>c \<in> set xs. digit_char c"
    and "ys \<noteq> []" and "\<forall>c \<in> set ys. digit_char c"
  shows "match_coord (''c:'' @ lvl @ '':'' @ xs @ '':'' @ ys) = Some (lvl, xs, ys)"
proof -
  have colon: "\<not> level_char CHR '':''" "\<not> digit_char CHR '':''"
    by (simp_all add: level_char_def digit_char_def digit_chars_def)
  have t1: "takeWhile level_char (lvl @ CHR '':'' # xs @ CHR '':'' # ys) = lvl"
    using assms(2) colon by (simp add: takeWhile_append2)
  have d1: "dropWhile level_char (lvl @ CHR '':'' # xs @ CHR '':'' # ys)
            = CHR '':'' # xs @ CHR '':'' # ys"
    using assms(2) colon by (simp add: dropWhile_append2)
  have t2: "takeWhile digit_char (xs @ CHR '':'' # ys) = xs"
    using assms(4) colon by (simp add: takeWhile_append2)
  have d2: "dropWhile digit_char (xs @ CHR '':'' # ys) = CHR '':'' # ys"
    using assms(4) colon by (simp add: dropWhile_append2)
  have t3: "takeWhile digit_char ys = ys" "dropWhile digit_char ys = []"
    using assms(6) by simp_all
  show ?thesis
    using assms(1,3,5) by (simp add: match_coord_def Let_def t1 d1 t2 d2 t3)
qed


text \<open>
  C7. The claim is that \<open>get_location\<close> never raises. For a coordinate identifier
  whose level exists and whose \<open>x\<close> field is \<open>1\<close> followed by 311 zeros, the pattern
  matches, \<^verbatim>\<open>int\<close> gives \<open>10\<^sup>3\<^sup>1\<^sup>1\<close>, and the true division by \<open>100\<close> raises
  OverflowError, because the quotient is beyond the range of a float.
\<close>

theorem get_location_overflow:
  "get_location example_db anyone
     (''c:ground:'' @ (CHR ''1'' # replicate 311 (CHR ''0'')) @ '':0'')
   = Inl OverflowError"
proof -
  have m: "match_coord (''c:'' @ ''ground'' @ '':'' @ (CHR ''1'' # replicate 311 (CHR ''0''))
             @ '':'' @ ''0'')
           = Some (''ground'', CHR ''1'' # replicate 311 (CHR ''0''), ''0'')"
    by (rule match_coord_formatted)
      (simp_all add: level_char_def digit_char_def digit_chars_def)
  have lvl: "levels_cached example_db ''ground'' = Some ground"
    by (simp add: example_db_def)
  from m have m': "match_coord (''c:ground:'' @ (CHR ''1'' # replicate 311 (CHR ''0'')) @ '':0'')
           = Some (''ground'', CHR ''1'' # replicate 311 (CHR ''0''), ''0'')"
    by simp
  show ?thesis
    by (simp only: get_location_def m' lvl option.case prod.case int_of_digits_power
        truediv_overflow sum.case)
qed

section \<open>The token filter of the search\<close>

lemma join_space_Cons_Cons: "join_space ((c # w) # ws) = c # join_space (w # ws)"
  by (cases ws) simp_all

lemma split_space_join: "join_space (split_space s) = s"
proof (induction s)
  case Nil
  then show ?case by simp
next
  case (Cons c s)
  obtain w0 ws where sp: "split_space s = w0 # ws"
    using split_space_nonempty [of s] by (cases "split_space s") auto
  with Cons show ?case
    by (simp add: join_space_Cons_Cons)
qed

lemma split_space_no_space: "w \<in> set (split_space s) \<Longrightarrow> CHR '' '' \<notin> set w"
proof (induction s arbitrary: w)
  case Nil
  then show ?case by simp
next
  case (Cons c s)
  obtain w0 ws where sp: "split_space s = w0 # ws"
    using split_space_nonempty [of s] by (cases "split_space s") auto
  from Cons.IH [of w0] sp have w0: "CHR '' '' \<notin> set w0" by simp
  from Cons.IH sp have rest: "\<And>v. v \<in> set ws \<Longrightarrow> CHR '' '' \<notin> set v" by simp
  from Cons.prems sp w0 rest Cons.IH show ?case
    by (auto split: if_splits)
qed

lemma split_space_word: "CHR '' '' \<notin> set w \<Longrightarrow> split_space w = [w]"
  by (induction w) auto

lemma split_space_append:
  "CHR '' '' \<notin> set w \<Longrightarrow> split_space (w @ CHR '' '' # r) = w # split_space r"
  by (induction w) auto

lemma split_space_of_join:
  "ws \<noteq> [] \<Longrightarrow> list_all (\<lambda>w. CHR '' '' \<notin> set w) ws \<Longrightarrow> split_space (join_space ws) = ws"
  by (induction ws rule: join_space.induct) (simp_all add: split_space_word split_space_append)

lemma pieces_of_iff: "pieces_of s ws \<longleftrightarrow> ws = split_space s"
proof
  assume "pieces_of s ws"
  then show "ws = split_space s"
    using split_space_of_join [of ws] by (auto simp: pieces_of_def)
next
  assume "ws = split_space s"
  then show "pieces_of s ws"
    by (auto simp: pieces_of_def split_space_nonempty split_space_join list_all_iff
        dest: split_space_no_space)
qed

lemma filter_words_filter:
  "filter_words queryset words
   = filter (\<lambda>row. passes_tokens words (name row) (titles row)) queryset"
proof (induction words arbitrary: queryset)
  case Nil
  then show ?case by (simp add: passes_tokens_def)
next
  case (Cons w ws)
  show ?case
    by (simp add: Cons.IH passes_tokens_def titles_icontains_def conj_commute)
qed

text \<open>
  C6. The tokens are the pieces of the query split at single spaces (the only list of
  space-free words whose join is the query), cut to the first ten. \<open>icontains\<close> is the
  substring test on the lower-cased strings. A row passes \<open>filter_words\<close> with these
  tokens if and only if every token occurs in its name or in one of its titles, so a
  row that lacks one token is left out; and the result of \<open>search_location\<close> is the
  direct match followed by the visible areas that pass, finest first, and the first
  ten visible groups that pass.
\<close>

theorem search_token_filter:
  assumes "get_location db request search = Inr location"
  shows "(\<forall>ws. pieces_of search ws \<longleftrightarrow> ws = split_space search)
   \<and> (\<forall>s w. icontains s w \<longleftrightarrow> (\<exists>p q. map lower_char s = p @ map lower_char w @ q))
   \<and> (\<forall>row queryset. row \<in> set (filter_words queryset (take 10 (split_space search)))
         \<longleftrightarrow> row \<in> set queryset
             \<and> passes_tokens (take 10 (split_space search)) (name row) (titles row))
   \<and> search_location db request search
       = Inr ((case location of Some l \<Rightarrow> [l] | None \<Rightarrow> [])
              @ map AreaLoc (sorted_reverse get_sort_key
                  (filter (\<lambda>a. passes_tokens (take 10 (split_space search)) (name a) (titles a))
                     (filter (may_see_area request) (arealocations db))))
              @ map GroupLoc (take 10
                  (filter (\<lambda>g. passes_tokens (take 10 (split_space search)) (name g) (titles g))
                     (filter (may_see_group request) (locationgroups db)))))"
proof -
  have pieces: "\<forall>ws. pieces_of search ws \<longleftrightarrow> ws = split_space search"
    by (simp add: pieces_of_iff)
  have substring: "\<forall>s w. icontains s w \<longleftrightarrow> (\<exists>p q. map lower_char s = p @ map lower_char w @ q)"
    by (simp add: icontains_def contains_iff)
  have member: "\<forall>row queryset. row \<in> set (filter_words queryset (take 10 (split_space search)))
         \<longleftrightarrow> row \<in> set queryset
             \<and> passes_tokens (take 10 (split_space search)) (name row) (titles row)"
    by (simp add: filter_words_filter)
  have result: "search_location db request search
       = Inr ((case location of Some l \<Rightarrow> [l] | None \<Rightarrow> [])
              @ map AreaLoc (sorted_reverse get_sort_key
                  (filter (\<lambda>a. passes_tokens (take 10 (split_space search)) (name a) (titles a))
                     (filter (may_see_area request) (arealocations db))))
              @ map GroupLoc (take 10
                  (filter (\<lambda>g. passes_tokens (take 10 (split_space search)) (name g) (titles g))
                     (filter (may_see_group request) (locationgroups db)))))"
    using assms
    by (simp add: search_location_def area_matches_def group_matches_def Let_def
        filter_words_filter filter_queryset_by_package_access_def)
  from pieces substring member result show ?thesis by blast
qed

theorem search_token_filter_witness:
  "get_location two_rooms_db anyone ''one room'' = Inr None
   \<and> split_space ''one room'' = [''one'', ''room'']
   \<and> search_location two_rooms_db anyone ''one room'' = Inr [AreaLoc room1]"
proof -
  have none: "get_location two_rooms_db anyone ''one room'' = Inr None"
    by (simp add: get_location_def filter_queryset_by_package_access_def first_def
        two_rooms_db_def example_defs string_defs)
  have words: "split_space ''one room'' = [''one'', ''room'']"
    by simp
  have rows: "name room1 = ''room1''" "titles room1 = [(''en'', ''Room One'')]"
    "name room2 = ''room2''" "titles room2 = [(''en'', ''Room Two'')]"
    by (simp_all add: room1_def room2_def mk_area_def)
  have yes: "icontains ''room1'' ''room''" "icontains ''Room One'' ''room''"
    "icontains ''Room One'' ''one''" "icontains ''room2'' ''room''"
    "icontains ''Room Two'' ''room''"
    by (simp_all add: string_defs)
  have no: "\<not> icontains ''room1'' ''one''" "\<not> icontains ''room2'' ''one''"
    "\<not> icontains ''Room Two'' ''one''"
    by (simp_all add: string_defs)
  have p1: "passes_tokens [''one'', ''room''] (name room1) (titles room1)"
    by (simp add: passes_tokens_def rows yes no)
  have p2: "\<not> passes_tokens [''one'', ''room''] (name room2) (titles room2)"
    by (simp add: passes_tokens_def rows yes no)
  have db: "arealocations two_rooms_db = [room1, room2]" "locationgroups two_rooms_db = []"
    "may_see_area anyone = (\<lambda>a. True)"
    by (simp_all add: two_rooms_db_def example_db_def anyone_def)
  have "search_location two_rooms_db anyone ''one room'' = Inr [AreaLoc room1]"
    using conjunct2 [OF conjunct2 [OF conjunct2 [OF search_token_filter [OF none]]]]
    by (simp add: words db p1 p2 sorted_reverse_def)
  with none words show ?thesis by simp
qed

end
